theory Spec2Isabelle
  imports Main
begin

section \<open>Data model of \<open>RestAdapter/rest_adapter.py\<close>\<close>

text \<open>
  Python strings are modelled as \<open>string\<close>; the labels, URLs and parameters the adapter
  handles are read as sequences of characters with codes below 256.  Exceptions are
  values: every \<open>raise\<close> of the source and every exception of a collaborator is an
  \<open>Inl\<close> result carrying the exception's type and its argument; for a
  \<open>RequestException\<close> the argument is the text \<open>str(e)\<close> gives.
\<close>

datatype py_error =
    ValueError string
  | KeyError string
  | IndexError string
  | RequestException string
  | OtherException string

text \<open>
  The fields \<open>__init__\<close> assigns.  \<open>session\<close> and \<open>logger\<close> are references: the
  \<open>Session\<close> object lives in a store and the \<open>Logger\<close> is named.
\<close>

record adapter =
  url :: string
  session :: nat
  api_key :: string
  ssl_verify :: bool
  logger :: string

text \<open>The part of a \<open>requests.Session\<close> the transport reads and updates.\<close>

record session_obj =
  headers :: "(string \<times> string) list"
  cookies :: "(string \<times> string) list"

text \<open>The arguments of \<open>Request(...)\<close> in \<open>_do\<close>; a dict is an association list in insertion order.\<close>

record request =
  req_method :: string
  req_url :: string
  req_headers :: "(string \<times> string) list"
  req_params :: "(string \<times> string) list option"
  req_json :: "(string \<times> string) list option"

record response =
  status_code :: int
  reason :: string
  content :: string

text \<open>
  The transport (\<open>Request.prepare\<close> followed by \<open>Session.send\<close>) is a collaborator: it
  receives the session object and the request, may update the session object, and either
  returns a response or raises.
\<close>

datatype outcome = Returned response | Raised py_error

type_synonym transport = "session_obj \<Rightarrow> request \<Rightarrow> session_obj \<times> outcome"

text \<open>
  What a method does to its surroundings is recorded in order: a call of
  \<open>self._logger\<close> with its numeric level and message, or a request handed to the
  transport.  The state threaded through every method is the adapter object, the store
  of session objects and the events so far.
\<close>

datatype event = Log nat string | Send request

record state =
  self :: adapter
  sessions :: "nat \<Rightarrow> session_obj"
  trace :: "event list"

section \<open>Logging\<close>

text \<open>The level constants of the \<open>logging\<close> module.\<close>

definition DEBUG :: nat where "DEBUG = 10"
definition INFO :: nat where "INFO = 20"
definition WARNING :: nat where "WARNING = 30"
definition ERROR :: nat where "ERROR = 40"
definition CRITICAL :: nat where "CRITICAL = 50"

text \<open>\<open>str.upper\<close> on ASCII letters; every other character is kept.\<close>

definition upper_char :: "char \<Rightarrow> char" where
  "upper_char c =
     (let n = (of_char c :: nat) in if 97 \<le> n \<and> n \<le> 122 then char_of (n - 32) else c)"

definition upper :: "string \<Rightarrow> string" where
  "upper s = map upper_char s"

text \<open>\<open>self._logger.log(level=n, msg=msg)\<close>, and its shorthands \<open>debug\<close> and \<open>error\<close>.\<close>

definition logger_log :: "nat \<Rightarrow> string \<Rightarrow> state \<Rightarrow> state" where
  "logger_log n msg st = st\<lparr>trace := trace st @ [Log n msg]\<rparr>"

definition logger_debug :: "string \<Rightarrow> state \<Rightarrow> state" where
  "logger_debug msg st = logger_log DEBUG msg st"

definition logger_error :: "string \<Rightarrow> state \<Rightarrow> state" where
  "logger_error msg st = logger_log ERROR msg st"

text \<open>
  \<open>RestAdapter.log\<close>: the \<open>match\<close> on \<open>level.upper()\<close>, arm by arm in the source's order,
  with the literals as the source spells them.
\<close>

definition log :: "string \<Rightarrow> string \<Rightarrow> state \<Rightarrow> state" where
  "log level msg st =
     (let l = upper level in
      if l = ''FATAL'' \<or> l = ''critical'' then logger_log 50 msg st
      else if l = ''ERROR'' then logger_log 40 msg st
      else if l = ''WARNING'' then logger_log 30 msg st
      else if l = ''INFO'' then logger_log 20 msg st
      else if l = ''DEBUG'' then logger_log 10 msg st
      else logger_log 0 msg st)"

section \<open>Construction\<close>

text \<open>
  What \<open>__init__\<close> takes from its surroundings: the reference of the \<open>Session()\<close> it
  creates, the logger \<open>getLogger(__name__)\<close> returns, and the outcome of preparing the
  log file under \<open>LOGGING_PATH\<close> and calling \<open>basicConfig\<close> (an exception, or none).
\<close>

record env =
  new_session :: nat
  module_logger :: string
  log_setup :: "string \<Rightarrow> nat \<Rightarrow> py_error option"

definition levels :: "(string \<times> nat) list" where
  "levels = [(''DEBUG'', DEBUG), (''INFO'', INFO), (''WARNING'', WARNING),
             (''ERROR'', ERROR), (''CRITICAL'', CRITICAL)]"

text \<open>
  \<open>_logger_config\<close>: the level is validated first; then the logger is chosen, the log
  file name defaulted, and the file and the root logger are set up.
\<close>

definition logger_config ::
  "env \<Rightarrow> adapter \<Rightarrow> string \<Rightarrow> string option \<Rightarrow> string option \<Rightarrow> py_error + adapter" where
  "logger_config e a log_level lg log_file =
     (case map_of levels log_level of
        None \<Rightarrow> Inl (ValueError (''Invalid log level '' @ log_level))
      | Some lv \<Rightarrow>
          (let a' = a\<lparr>logger := (case lg of Some l \<Rightarrow> l | None \<Rightarrow> module_logger e)\<rparr>;
               file = (case log_file of
                         None \<Rightarrow> ''panorama_adapter.log''
                       | Some f \<Rightarrow> if f = [] then ''panorama_adapter.log'' else f)
           in case log_setup e file lv of
                Some err \<Rightarrow> Inl err
              | None \<Rightarrow> Inr a'))"

text \<open>
  \<open>__init__\<close>.  The call of \<open>urllib3.disable_warnings\<close> that follows the logger
  configuration touches none of the adapter's fields and cannot fail.
\<close>

definition init ::
  "env \<Rightarrow> string \<Rightarrow> string \<Rightarrow> string \<Rightarrow> bool \<Rightarrow> string option \<Rightarrow> string option \<Rightarrow> string
     \<Rightarrow> py_error + adapter" where
  "init e hostname key ver verify lg log_file log_level =
     (let u = ''https://'' @ hostname @ ''/'';
          u' = (if ver \<noteq> [] then u @ ver @ ''/'' else u);
          a = \<lparr>url = u', session = new_session e, api_key = key, ssl_verify = verify,
               logger = []\<rparr>
      in logger_config e a (upper log_level) lg log_file)"

section \<open>String rendering\<close>

text \<open>\<open>sep.join(xs)\<close>.\<close>

fun join :: "string \<Rightarrow> string list \<Rightarrow> string" where
  "join sep [] = []"
| "join sep [x] = x"
| "join sep (x # y # ys) = x @ sep @ join sep (y # ys)"

text \<open>\<open>str\<close> of a bool and of an int (decimal digits, a leading minus sign).\<close>

definition str_bool :: "bool \<Rightarrow> string" where
  "str_bool b = (if b then ''True'' else ''False'')"

fun str_nat :: "nat \<Rightarrow> string" where
  "str_nat n = (if n < 10 then [char_of (48 + n)] else str_nat (n div 10) @ [char_of (48 + n mod 10)])"

definition str_int :: "int \<Rightarrow> string" where
  "str_int i = (if i < 0 then CHR ''-'' # str_nat (nat (- i)) else str_nat (nat i))"

text \<open>
  \<open>repr\<close> of a string, which is how a list shows its elements: single quotes, unless
  the text holds a single quote and no double quote; the quote and the backslash are
  escaped, tab, newline and carriage return are written \<open>\t\<close>, \<open>\n\<close>, \<open>\r\<close>, every other
  non-printable character as \<open>\xhh\<close>.
\<close>

definition squote :: char where "squote = char_of (39::nat)"
definition dquote :: char where "dquote = char_of (34::nat)"
definition backslash :: char where "backslash = char_of (92::nat)"

definition hex_digit :: "nat \<Rightarrow> char" where
  "hex_digit n = (if n < 10 then char_of (48 + n) else char_of (87 + n))"

definition printable :: "char \<Rightarrow> bool" where
  "printable c =
     (let n = (of_char c :: nat) in 32 \<le> n \<and> n \<noteq> 127 \<and> \<not> (128 \<le> n \<and> n \<le> 160) \<and> n \<noteq> 173)"

definition repr_char :: "char \<Rightarrow> char \<Rightarrow> string" where
  "repr_char q c =
     (let n = (of_char c :: nat) in
      if c = q \<or> c = backslash then [backslash, c]
      else if n = 9 then [backslash, CHR ''t'']
      else if n = 10 then [backslash, CHR ''n'']
      else if n = 13 then [backslash, CHR ''r'']
      else if \<not> printable c then [backslash, CHR ''x'', hex_digit (n div 16), hex_digit (n mod 16)]
      else [c])"

definition repr_str :: "string \<Rightarrow> string" where
  "repr_str s =
     (let q = (if squote \<in> set s \<and> dquote \<notin> set s then dquote else squote)
      in [q] @ concat (map (repr_char q) s) @ [q])"

text \<open>\<open>str\<close> of a list of strings, as an f-string renders it.\<close>

definition str_list :: "string list \<Rightarrow> string" where
  "str_list xs = ''['' @ join '', '' (map repr_str xs) @ '']''"

section \<open>\<open>str.format\<close> with keyword arguments only\<close>

text \<open>
  The scanner of replacement fields.  A field name runs to the first \<open>}\<close>, \<open>:\<close> or \<open>!\<close>
  outside square brackets; an opening brace inside it is an error.  The flag says
  whether the scan is inside square brackets; the accumulator holds the name reversed.
\<close>

fun parse_name :: "bool \<Rightarrow> string \<Rightarrow> string \<Rightarrow> py_error + (string \<times> char \<times> string)" where
  "parse_name b acc [] = Inl (ValueError (''expected '' @ [squote] @ ''}'' @ [squote] @ '' before end of string''))"
| "parse_name True acc (c # cs) =
     (if c = CHR '']'' then parse_name False (c # acc) cs else parse_name True (c # acc) cs)"
| "parse_name False acc (c # cs) =
     (if c = CHR ''{'' then Inl (ValueError (''unexpected '' @ [squote] @ ''{'' @ [squote] @ '' in field name''))
      else if c = CHR ''['' then parse_name True (c # acc) cs
      else if c = CHR ''}'' \<or> c = CHR '':'' \<or> c = CHR ''!'' then Inr (rev acc, c, cs)
      else parse_name False (c # acc) cs)"

text \<open>A format specification runs to the brace that closes the field, counting nested braces.\<close>

fun parse_spec :: "nat \<Rightarrow> string \<Rightarrow> string \<Rightarrow> py_error + (string \<times> string)" where
  "parse_spec n acc [] = Inl (ValueError (''unmatched '' @ [squote] @ ''{'' @ [squote] @ '' in format spec''))"
| "parse_spec n acc (c # cs) =
     (if c = CHR ''{'' then parse_spec (Suc n) (c # acc) cs
      else if c = CHR ''}'' then
        (if n = 1 then Inr (rev acc, cs) else parse_spec (n - 1) (c # acc) cs)
      else parse_spec n (c # acc) cs)"

text \<open>A parsed field: its name, its conversion character if any, its format specification.\<close>

type_synonym field = "string \<times> char option \<times> string"

definition parse_field :: "string \<Rightarrow> py_error + (field \<times> string)" where
  "parse_field s =
     (case parse_name False [] s of
        Inl e \<Rightarrow> Inl e
      | Inr (name, c, rest) \<Rightarrow>
          if c = CHR ''}'' then Inr ((name, None, []), rest)
          else if c = CHR ''!'' then
            (case rest of
               [] \<Rightarrow> Inl (ValueError ''end of string while looking for conversion specifier'')
             | conv # rest1 \<Rightarrow>
                 (case rest1 of
                    [] \<Rightarrow> map_sum id (\<lambda>(spec, r). ((name, Some conv, spec), r)) (parse_spec 1 [] [])
                  | c2 # rest2 \<Rightarrow>
                      if c2 = CHR ''}'' then Inr ((name, Some conv, []), rest2)
                      else if c2 \<noteq> CHR '':'' then
                        Inl (ValueError (''expected '' @ [squote] @ '':'' @ [squote] @ '' after conversion specifier''))
                      else map_sum id (\<lambda>(spec, r). ((name, Some conv, spec), r)) (parse_spec 1 [] rest2)))
          else map_sum id (\<lambda>(spec, r). ((name, None, spec), r)) (parse_spec 1 [] rest))"

text \<open>
  Looking a field up.  The first part of the name runs to the first \<open>.\<close> or \<open>[\<close>.  An
  empty or all-digit first part indexes the positional arguments, of which \<open>_do\<close>
  passes none (an index above \<open>2^63 - 1\<close>, the largest the library reads on a 64-bit
  platform, is refused first); any other first part is a keyword.  A keyword field with nothing after
  the name renders the argument as \<open>str\<close> does.  What attribute and index access, a
  conversion or a format specification make of an argument is the library's business
  and is the parameter \<open>ext\<close>, which is given the keyword arguments and the parts of
  the field.
\<close>

type_synonym field_ext =
  "(string \<times> string) list \<Rightarrow> string \<Rightarrow> string \<Rightarrow> char option \<Rightarrow> string \<Rightarrow> py_error + string"

definition is_digit :: "char \<Rightarrow> bool" where
  "is_digit c = (let n = (of_char c :: nat) in 48 \<le> n \<and> n \<le> 57)"

fun decimal :: "nat \<Rightarrow> string \<Rightarrow> nat" where
  "decimal a [] = a"
| "decimal a (c # cs) = decimal (10 * a + (of_char c - 48)) cs"

definition index_error :: "nat \<Rightarrow> py_error" where
  "index_error i =
     IndexError (''Replacement index '' @ str_nat i @ '' out of range for positional args tuple'')"

definition render_field :: "field_ext \<Rightarrow> (string \<times> string) list \<Rightarrow> field \<Rightarrow> py_error + string" where
  "render_field ext kwargs f =
     (case f of (name, conv, spec) \<Rightarrow>
        (let first = takeWhile (\<lambda>c. c \<noteq> CHR ''.'' \<and> c \<noteq> CHR ''['') name;
             rest = dropWhile (\<lambda>c. c \<noteq> CHR ''.'' \<and> c \<noteq> CHR ''['') name
         in if first = [] then Inl (index_error 0)
            else if list_all is_digit first then
              (if decimal 0 first > 9223372036854775807
               then Inl (ValueError ''Too many decimal digits in format string'')
               else Inl (index_error (decimal 0 first)))
            else
              (case map_of kwargs first of
                 None \<Rightarrow> Inl (KeyError first)
               | Some v \<Rightarrow>
                   if rest = [] \<and> conv = None \<and> spec = [] then Inr v
                   else ext kwargs first rest conv spec)))"

text \<open>The scanner consumes what it reads: the text after a field is shorter than the text it began in.\<close>

lemma parse_name_shorter: "parse_name b acc s = Inr (n, c, r) \<Longrightarrow> length r < length s"
  by (induction b acc s rule: parse_name.induct) (auto split: if_splits)

lemma parse_spec_shorter: "parse_spec k acc s = Inr (sp, r) \<Longrightarrow> length r < length s"
  by (induction k acc s rule: parse_spec.induct) (auto split: if_splits)

lemma map_sum_id_Inr: "map_sum id g x = Inr y \<Longrightarrow> \<exists>z. x = Inr z \<and> y = g z"
  by (cases x) auto

lemma parse_field_shorter: "parse_field s = Inr (f, r) \<Longrightarrow> length r < length s"
  unfolding parse_field_def
  by (fastforce split: sum.splits prod.splits list.splits if_splits
           dest!: parse_name_shorter parse_spec_shorter map_sum_id_Inr)

text \<open>
  The loop of \<open>str.format\<close>: literal text is copied, a doubled brace stands for itself, a
  closing brace alone or an opening brace at the end is an error, and a replacement
  field is parsed, looked up and rendered.  The first error ends the call.
\<close>

function (sequential) format_go :: "field_ext \<Rightarrow> (string \<times> string) list \<Rightarrow> string \<Rightarrow> py_error + string" where
  "format_go ext kw [] = Inr []"
| "format_go ext kw (c # cs) =
     (if c = CHR ''}'' then
        (case cs of
           [] \<Rightarrow> Inl (ValueError (''Single '' @ [squote] @ ''}'' @ [squote] @ '' encountered in format string''))
         | d # ds \<Rightarrow>
             if d = CHR ''}'' then map_sum id ((#) c) (format_go ext kw ds)
             else Inl (ValueError (''Single '' @ [squote] @ ''}'' @ [squote] @ '' encountered in format string'')))
      else if c = CHR ''{'' then
        (case cs of
           [] \<Rightarrow> Inl (ValueError (''Single '' @ [squote] @ ''{'' @ [squote] @ '' encountered in format string''))
         | d # ds \<Rightarrow>
             if d = CHR ''{'' then map_sum id ((#) c) (format_go ext kw ds)
             else
               (case parse_field cs of
                  Inl e \<Rightarrow> Inl e
                | Inr (f, rest) \<Rightarrow>
                    (case render_field ext kw f of
                       Inl e \<Rightarrow> Inl e
                     | Inr txt \<Rightarrow> map_sum id ((@) txt) (format_go ext kw rest))))
      else map_sum id ((#) c) (format_go ext kw cs))"
  by pat_completeness auto
termination
  by (relation "measure (\<lambda>(ext, kw, s). length s)") (auto dest: parse_field_shorter)

text \<open>\<open>template.format(**kwargs)\<close>; each keyword argument is given as its \<open>str\<close>.\<close>

definition format :: "field_ext \<Rightarrow> string \<Rightarrow> (string \<times> string) list \<Rightarrow> py_error + string" where
  "format ext template kwargs = format_go ext kwargs template"

section \<open>Requests\<close>

text \<open>
  The lines of \<open>_do\<close> before the \<open>try\<close> build the URL and the two log lines:
  \<open>log_params\<close> is empty when the parameters are \<open>None\<close> or an empty dict, the
  pre-flight line is an f-string, and the post-flight template is the pre-flight line
  joined to the three replacement fields.
\<close>

definition full_url :: "adapter \<Rightarrow> string \<Rightarrow> string" where
  "full_url a endpoint = url a @ endpoint"

definition log_params :: "(string \<times> string) list option \<Rightarrow> string list" where
  "log_params ep_params =
     (case ep_params of
        None \<Rightarrow> []
      | Some ps \<Rightarrow> if ps = [] then [] else map (\<lambda>(key, value). key @ '': '' @ value) ps)"

definition log_line_pre :: "adapter \<Rightarrow> string \<Rightarrow> string \<Rightarrow> (string \<times> string) list option \<Rightarrow> string" where
  "log_line_pre a http_method endpoint ep_params =
     ''method='' @ http_method @ '', url='' @ full_url a endpoint
       @ '', params='' @ str_list (log_params ep_params)"

definition log_line_post :: "adapter \<Rightarrow> string \<Rightarrow> string \<Rightarrow> (string \<times> string) list option \<Rightarrow> string" where
  "log_line_post a http_method endpoint ep_params =
     join '', '' [log_line_pre a http_method endpoint ep_params,
                  ''success={success}, status_code={status_code}, message={message}'']"

text \<open>
  \<open>_do\<close>.  Inside the \<open>try\<close> the pre-flight line is logged and the request is handed to
  the transport; the \<open>except\<close> clause selects \<open>RequestException\<close>, logs its text and
  re-raises, and lets any other exception pass; after the \<open>try\<close> the outcome is
  classified, the post-flight line is formatted and logged, and the response is
  returned.
\<close>

definition do' ::
  "field_ext \<Rightarrow> transport \<Rightarrow> string \<Rightarrow> string \<Rightarrow> (string \<times> string) list option
     \<Rightarrow> (string \<times> string) list option \<Rightarrow> state \<Rightarrow> state \<times> (py_error + response)" where
  "do' ext send http_method endpoint ep_params data st =
     (let st1 = logger_debug (log_line_pre (self st) http_method endpoint ep_params) st;
          sess = sessions st1 (session (self st1));
          req = \<lparr>req_method = http_method, req_url = full_url (self st) endpoint,
                 req_headers = headers sess, req_params = ep_params, req_json = data\<rparr>;
          (sess', out) = send sess req;
          st2 = st1\<lparr>sessions := (sessions st1)(session (self st1) := sess'),
                   trace := trace st1 @ [Send req]\<rparr>
      in case out of
           Raised e \<Rightarrow>
             (case e of
                RequestException m \<Rightarrow> (logger_error m st2, Inl e)
              | _ \<Rightarrow> (st2, Inl e))
         | Returned response \<Rightarrow>
             (let is_success = (299 \<ge> status_code response \<and> status_code response \<ge> 200)
              in case format ext (log_line_post (self st) http_method endpoint ep_params)
                        [(''success'', str_bool is_success),
                         (''status_code'', str_int (status_code response)),
                         (''message'', reason response)] of
                   Inl e \<Rightarrow> (st2, Inl e)
                 | Inr log_line \<Rightarrow>
                     if is_success then (logger_debug log_line st2, Inr response)
                     else (logger_error log_line st2, Inr response)))"

text \<open>The four HTTP methods.\<close>

definition get ::
  "field_ext \<Rightarrow> transport \<Rightarrow> string \<Rightarrow> (string \<times> string) list option \<Rightarrow> state
     \<Rightarrow> state \<times> (py_error + response)" where
  "get ext send endpoint ep_params st = do' ext send ''GET'' endpoint ep_params None st"

definition post ::
  "field_ext \<Rightarrow> transport \<Rightarrow> string \<Rightarrow> (string \<times> string) list option
     \<Rightarrow> (string \<times> string) list option \<Rightarrow> state \<Rightarrow> state \<times> (py_error + response)" where
  "post ext send endpoint ep_params data st = do' ext send ''POST'' endpoint ep_params data st"

definition put ::
  "field_ext \<Rightarrow> transport \<Rightarrow> string \<Rightarrow> (string \<times> string) list option
     \<Rightarrow> (string \<times> string) list option \<Rightarrow> state \<Rightarrow> state \<times> (py_error + response)" where
  "put ext send endpoint ep_params data st = do' ext send ''PUT'' endpoint ep_params data st"

definition delete ::
  "field_ext \<Rightarrow> transport \<Rightarrow> string \<Rightarrow> (string \<times> string) list option \<Rightarrow> state
     \<Rightarrow> state \<times> (py_error + response)" where
  "delete ext send endpoint ep_params st = do' ext send ''DELETE'' endpoint ep_params None st"

section \<open>Vocabulary of the properties\<close>

text \<open>
  A label written in any letter case: each character is the label's character, its
  lower-case form or its upper-case form.
\<close>

definition lower_char :: "char \<Rightarrow> char" where
  "lower_char c =
     (let n = (of_char c :: nat) in if 65 \<le> n \<and> n \<le> 90 then char_of (n + 32) else c)"

definition any_case :: "string \<Rightarrow> string \<Rightarrow> bool" where
  "any_case label s = list_all2 (\<lambda>d c. c = d \<or> c = lower_char d \<or> c = upper_char d) label s"

text \<open>An adapter for \<open>https://host/v1/\<close> with an empty session and nothing recorded yet.\<close>

definition example_state :: state where
  "example_state =
     \<lparr>self = \<lparr>url = ''https://host/v1/'', session = 0, api_key = ''key'', ssl_verify = True,
              logger = ''rest_adapter''\<rparr>,
      sessions = (\<lambda>_. \<lparr>headers = [], cookies = []\<rparr>),
      trace = []\<rparr>"

text \<open>An environment in which preparing the log file succeeds.\<close>

definition example_env :: env where
  "example_env = \<lparr>new_session = 0, module_logger = ''rest_adapter'', log_setup = (\<lambda>_ _. None)\<rparr>"

text \<open>
  A stand-in for what the library makes of attribute access, conversions and format
  specifications in a replacement field; the examples below never reach it.
\<close>

definition no_ext :: field_ext where
  "no_ext kwargs first rest conv spec = Inl (OtherException ''field not rendered'')"

text \<open>A transport that answers every request with the given status; one that refuses every connection.\<close>

definition answer :: "int \<Rightarrow> string \<Rightarrow> transport" where
  "answer code phrase s q = (s, Returned \<lparr>status_code = code, reason = phrase, content = []\<rparr>)"

definition refused_transport :: transport where
  "refused_transport s q = (s, Raised (RequestException ''Connection refused''))"

text \<open>The request \<open>_do\<close> builds, and the state once the transport has been called.\<close>

definition request_of ::
  "state \<Rightarrow> string \<Rightarrow> string \<Rightarrow> (string \<times> string) list option \<Rightarrow> (string \<times> string) list option \<Rightarrow> request" where
  "request_of st http_method endpoint ep_params data =
     \<lparr>req_method = http_method, req_url = url (self st) @ endpoint,
      req_headers = headers (sessions st (session (self st))),
      req_params = ep_params, req_json = data\<rparr>"

definition sent ::
  "state \<Rightarrow> string \<Rightarrow> string \<Rightarrow> (string \<times> string) list option \<Rightarrow> (string \<times> string) list option
     \<Rightarrow> session_obj \<Rightarrow> state" where
  "sent st http_method endpoint ep_params data sess' =
     st\<lparr>sessions := (sessions st)(session (self st) := sess'),
        trace := trace st @ [Log DEBUG (log_line_pre (self st) http_method endpoint ep_params),
                             Send (request_of st http_method endpoint ep_params data)]\<rparr>"

section \<open>The severity labels of \<open>log\<close>\<close>

lemma of_char_upper_char:
  "of_char (upper_char c) = (let n = (of_char c :: nat) in if 97 \<le> n \<and> n \<le> 122 then n - 32 else n)"
  by (auto simp: upper_char_def Let_def)

lemma upper_char_not_lower:
  "\<not> (97 \<le> (of_char (upper_char c) :: nat) \<and> (of_char (upper_char c) :: nat) \<le> 122)"
  by (auto simp: of_char_upper_char Let_def)

lemma upper_no_lower:
  "c \<in> set (upper s) \<Longrightarrow> \<not> (97 \<le> (of_char c :: nat) \<and> (of_char c :: nat) \<le> 122)"
  using upper_char_not_lower by (auto simp: upper_def)

text \<open>The lower-case literal of the first arm is never met: the text matched is upper-cased.\<close>

lemma upper_not_critical: "upper s \<noteq> ''critical''"
proof
  assume "upper s = ''critical''"
  then have "CHR ''c'' \<in> set (upper s)" by simp
  from upper_no_lower[OF this] show False by simp
qed

lemma log_level:
  "log level msg st =
     logger_log (if upper level = ''FATAL'' then 50 else if upper level = ''ERROR'' then 40
                 else if upper level = ''WARNING'' then 30 else if upper level = ''INFO'' then 20
                 else if upper level = ''DEBUG'' then 10 else 0) msg st"
  by (simp add: log_def Let_def upper_not_critical)

lemma any_case_upper:
  "any_case label s \<Longrightarrow> \<forall>d \<in> set label. 65 \<le> (of_char d :: nat) \<and> (of_char d :: nat) \<le> 90
     \<Longrightarrow> upper s = label"
  unfolding any_case_def upper_def
proof (induction label s rule: list_all2_induct)
  case Nil
  then show ?case by simp
next
  case (Cons d ds c cs)
  have d: "65 \<le> (of_char d :: nat)" "(of_char d :: nat) \<le> 90" using Cons.prems by auto
  have "upper_char c = d"
    using Cons.hyps(1) d by (auto simp: upper_char_def lower_char_def Let_def)
  then show ?case using Cons by simp
qed

text \<open>
  C7: a label that, upper-cased, is none of the five the \<open>match\<close> of \<open>log\<close> can meet
  (FATAL, ERROR, WARNING, INFO, DEBUG) is not rejected: the call returns, and its one
  effect is the message handed to the logger at numeric level 0.
\<close>

theorem log_unrecognized_label:
  "upper level \<notin> {''FATAL'', ''ERROR'', ''WARNING'', ''INFO'', ''DEBUG''} \<Longrightarrow>
   log level msg st = st\<lparr>trace := trace st @ [Log 0 msg]\<rparr>"
  by (simp add: log_level logger_log_def)

theorem log_unrecognized_label_witness:
  "upper ''verbose'' \<notin> {''FATAL'', ''ERROR'', ''WARNING'', ''INFO'', ''DEBUG''} \<and>
   trace (log ''verbose'' ''m'' example_state) = [Log 0 ''m'']"
proof -
  have h: "upper ''verbose'' \<notin> {''FATAL'', ''ERROR'', ''WARNING'', ''INFO'', ''DEBUG''}"
    by (simp add: upper_def upper_char_def)
  show ?thesis using h log_unrecognized_label [OF h, of "''m''" example_state]
    by (simp add: example_state_def)
qed

text \<open>
  C9: the label CRITICAL, in any letter case, is logged at numeric level 0, not 50; a
  message is logged at level 50 exactly when the label upper-cases to FATAL.
\<close>

theorem log_critical_is_level_0:
  "(any_case ''CRITICAL'' level \<longrightarrow> log level msg st = st\<lparr>trace := trace st @ [Log 0 msg]\<rparr>)
   \<and> ((trace (log level msg st) = trace st @ [Log 50 msg]) = (upper level = ''FATAL''))"
proof -
  have "upper level = ''CRITICAL''" if "any_case ''CRITICAL'' level"
    using that by (rule any_case_upper) simp_all
  then show ?thesis
    by (auto simp: log_level logger_log_def)
qed

theorem log_critical_is_level_0_witness:
  "any_case ''CRITICAL'' ''Critical'' \<and> trace (log ''Critical'' ''m'' example_state) = [Log 0 ''m'']
   \<and> trace (log ''fatal'' ''m'' example_state) = [Log 50 ''m'']"
proof -
  have h: "any_case ''CRITICAL'' ''Critical''"
    by code_simp
  have u: "upper ''fatal'' = ''FATAL''"
    by code_simp
  show ?thesis
    using h u log_critical_is_level_0 [of "''Critical''" "''m''" example_state]
      log_critical_is_level_0 [of "''fatal''" "''m''" example_state]
    by (simp add: example_state_def)
qed

section \<open>Level validation in the constructor\<close>

lemma levels_member:
  "(map_of levels l = None) = (l \<notin> {''DEBUG'', ''INFO'', ''WARNING'', ''ERROR'', ''CRITICAL''})"
  by (simp add: levels_def)

text \<open>
  C10: construction raises the \<open>ValueError\<close> of the level check exactly when the
  upper-cased \<open>log_level\<close> is none of DEBUG, INFO, WARNING, ERROR, CRITICAL.  For one of
  the five, whatever construction raises is raised by the preparation of the log file,
  and the five labels are accepted in any letter case.
\<close>

theorem init_level_validation:
  "(upper log_level \<notin> {''DEBUG'', ''INFO'', ''WARNING'', ''ERROR'', ''CRITICAL''} \<longrightarrow>
      init e hostname key ver verify lg log_file log_level
        = Inl (ValueError (''Invalid log level '' @ upper log_level)))
   \<and> (upper log_level \<in> {''DEBUG'', ''INFO'', ''WARNING'', ''ERROR'', ''CRITICAL''} \<longrightarrow>
        (\<forall>err. init e hostname key ver verify lg log_file log_level = Inl err \<longrightarrow>
               (\<exists>file lv. log_setup e file lv = Some err)))
   \<and> ((\<exists>l \<in> {''DEBUG'', ''INFO'', ''WARNING'', ''ERROR'', ''CRITICAL''}. any_case l log_level) \<longrightarrow>
        upper log_level \<in> {''DEBUG'', ''INFO'', ''WARNING'', ''ERROR'', ''CRITICAL''})"
proof (intro conjI impI)
  assume "upper log_level \<notin> {''DEBUG'', ''INFO'', ''WARNING'', ''ERROR'', ''CRITICAL''}"
  then have "map_of levels (upper log_level) = None" by (simp add: levels_member)
  then show "init e hostname key ver verify lg log_file log_level
        = Inl (ValueError (''Invalid log level '' @ upper log_level))"
    by (simp add: init_def logger_config_def Let_def)
next
  assume "upper log_level \<in> {''DEBUG'', ''INFO'', ''WARNING'', ''ERROR'', ''CRITICAL''}"
  then have "map_of levels (upper log_level) \<noteq> None" by (simp add: levels_member)
  then obtain lv where "map_of levels (upper log_level) = Some lv" by blast
  then show "\<forall>err. init e hostname key ver verify lg log_file log_level = Inl err \<longrightarrow>
               (\<exists>file lv. log_setup e file lv = Some err)"
    by (auto simp: init_def logger_config_def Let_def split: option.splits)
next
  assume "\<exists>l \<in> {''DEBUG'', ''INFO'', ''WARNING'', ''ERROR'', ''CRITICAL''}. any_case l log_level"
  then obtain l where l: "l \<in> {''DEBUG'', ''INFO'', ''WARNING'', ''ERROR'', ''CRITICAL''}"
    and a: "any_case l log_level" by blast
  have "\<forall>d \<in> set l. 65 \<le> (of_char d :: nat) \<and> (of_char d :: nat) \<le> 90"
    using l by auto
  with a have "upper log_level = l" by (rule any_case_upper)
  with l show "upper log_level \<in> {''DEBUG'', ''INFO'', ''WARNING'', ''ERROR'', ''CRITICAL''}"
    by simp
qed

theorem init_level_validation_witness:
  "upper ''verbose'' \<notin> {''DEBUG'', ''INFO'', ''WARNING'', ''ERROR'', ''CRITICAL''}
   \<and> init example_env ''host'' ''key'' ''v1'' True None None ''verbose''
        = Inl (ValueError ''Invalid log level VERBOSE'')
   \<and> any_case ''WARNING'' ''Warning''
   \<and> upper ''Warning'' \<in> {''DEBUG'', ''INFO'', ''WARNING'', ''ERROR'', ''CRITICAL''}
   \<and> (\<forall>err. init example_env ''host'' ''key'' ''v1'' True None None ''Warning'' \<noteq> Inl err)"
proof -
  have h1: "upper ''verbose'' \<notin> {''DEBUG'', ''INFO'', ''WARNING'', ''ERROR'', ''CRITICAL''}"
    by code_simp
  have u1: "upper ''verbose'' = ''VERBOSE''" by code_simp
  have h2: "any_case ''WARNING'' ''Warning''" by code_simp
  have u2: "upper ''Warning'' = ''WARNING''" by code_simp
  have h3: "\<exists>l \<in> {''DEBUG'', ''INFO'', ''WARNING'', ''ERROR'', ''CRITICAL''}. any_case l ''Warning''"
    using h2 by blast
  have e: "\<And>file lv. log_setup example_env file lv = None" by (simp add: example_env_def)
  show ?thesis
    using h1 u1 h2 u2 h3 e
      init_level_validation [of "''verbose''" example_env "''host''" "''key''" "''v1''" True None None]
      init_level_validation [of "''Warning''" example_env "''host''" "''key''" "''v1''" True None None]
    by simp
qed

section \<open>The outcomes of \<open>_do\<close>\<close>

lemma do_raised_request:
  "send (sessions st (session (self st))) (request_of st http_method endpoint ep_params data)
     = (sess', Raised (RequestException desc)) \<Longrightarrow>
   do' ext send http_method endpoint ep_params data st
     = (logger_log ERROR desc (sent st http_method endpoint ep_params data sess'),
        Inl (RequestException desc))"
  unfolding do'_def Let_def logger_debug_def logger_error_def logger_log_def request_of_def
    sent_def full_url_def
  by simp

lemma do_raised_other:
  "send (sessions st (session (self st))) (request_of st http_method endpoint ep_params data)
     = (sess', Raised e) \<Longrightarrow> \<forall>desc. e \<noteq> RequestException desc \<Longrightarrow>
   do' ext send http_method endpoint ep_params data st
     = (sent st http_method endpoint ep_params data sess', Inl e)"
  unfolding do'_def Let_def logger_debug_def logger_error_def logger_log_def request_of_def
    sent_def full_url_def
  by (cases e) simp_all

lemma do_returned:
  "send (sessions st (session (self st))) (request_of st http_method endpoint ep_params data)
     = (sess', Returned r) \<Longrightarrow>
   do' ext send http_method endpoint ep_params data st
     = (case format ext (log_line_post (self st) http_method endpoint ep_params)
               [(''success'', str_bool (200 \<le> status_code r \<and> status_code r \<le> 299)),
                (''status_code'', str_int (status_code r)),
                (''message'', reason r)] of
          Inl e \<Rightarrow> (sent st http_method endpoint ep_params data sess', Inl e)
        | Inr line \<Rightarrow>
            (logger_log (if 200 \<le> status_code r \<and> status_code r \<le> 299 then DEBUG else ERROR) line
               (sent st http_method endpoint ep_params data sess'), Inr r))"
  unfolding do'_def Let_def logger_debug_def logger_error_def logger_log_def request_of_def
    sent_def full_url_def
  by (simp add: conj_commute split: sum.splits)


lemma sent_simps [simp]:
  "self (sent st m ep ps d sess') = self st"
  "sessions (sent st m ep ps d sess') = (sessions st)(session (self st) := sess')"
  "trace (sent st m ep ps d sess')
     = trace st @ [Log DEBUG (log_line_pre (self st) m ep ps), Send (request_of st m ep ps d)]"
  by (simp_all add: sent_def)

lemma logger_log_simps [simp]:
  "self (logger_log n msg st) = self st"
  "sessions (logger_log n msg st) = sessions st"
  "trace (logger_log n msg st) = trace st @ [Log n msg]"
  by (simp_all add: logger_log_def)

text \<open>Whatever the transport does, \<open>_do\<close> ends in one of four ways.\<close>

lemma do_cases:
  obtains
    (request_error) sess' desc where
      "do' ext send m ep ps d st
         = (logger_log ERROR desc (sent st m ep ps d sess'), Inl (RequestException desc))"
      "send (sessions st (session (self st))) (request_of st m ep ps d)
         = (sess', Raised (RequestException desc))"
  | (other_error) sess' e where
      "do' ext send m ep ps d st = (sent st m ep ps d sess', Inl e)"
      "send (sessions st (session (self st))) (request_of st m ep ps d) = (sess', Raised e)"
  | (format_error) sess' r e where
      "do' ext send m ep ps d st = (sent st m ep ps d sess', Inl e)"
      "send (sessions st (session (self st))) (request_of st m ep ps d) = (sess', Returned r)"
  | (returned) sess' r line where
      "do' ext send m ep ps d st
         = (logger_log (if 200 \<le> status_code r \<and> status_code r \<le> 299 then DEBUG else ERROR) line
              (sent st m ep ps d sess'), Inr r)"
      "send (sessions st (session (self st))) (request_of st m ep ps d) = (sess', Returned r)"
proof -
  obtain sess' out where s:
    "send (sessions st (session (self st))) (request_of st m ep ps d) = (sess', out)"
    by (cases "send (sessions st (session (self st))) (request_of st m ep ps d)")
  show thesis
  proof (cases out)
    case (Raised e)
    show thesis
    proof (cases "\<exists>desc. e = RequestException desc")
      case True
      then obtain desc where "e = RequestException desc" by blast
      with s Raised show thesis using do_raised_request request_error by blast
    next
      case False
      with s Raised show thesis using do_raised_other other_error by blast
    qed
  next
    case (Returned r)
    with s have r: "send (sessions st (session (self st))) (request_of st m ep ps d)
                      = (sess', Returned r)" by simp
    show thesis
    proof (cases "format ext (log_line_post (self st) m ep ps)
               [(''success'', str_bool (200 \<le> status_code r \<and> status_code r \<le> 299)),
                (''status_code'', str_int (status_code r)),
                (''message'', reason r)]")
      case (Inl e)
      have "do' ext send m ep ps d st = (sent st m ep ps d sess', Inl e)"
        by (simp only: do_returned [of send st m ep ps d sess' r ext, OF r] Inl sum.case)
      from this r show thesis by (rule format_error)
    next
      case (Inr line)
      have "do' ext send m ep ps d st
         = (logger_log (if 200 \<le> status_code r \<and> status_code r \<le> 299 then DEBUG else ERROR) line
              (sent st m ep ps d sess'), Inr r)"
        by (simp only: do_returned [of send st m ep ps d sess' r ext, OF r] Inr sum.case)
      from this r show thesis by (rule returned)
    qed
  qed
qed

text \<open>
  C8: \<open>_do\<close>, \<open>get\<close>, \<open>post\<close>, \<open>put\<close> and \<open>delete\<close> leave the adapter object as it was
  (base URL, session reference, API key, SSL flag, logger), whether the call returns or
  raises; what a call changes is the session object in the store and the record of events.
\<close>

theorem do_frame:
  "self (fst (do' ext send http_method endpoint ep_params data st)) = self st
   \<and> self (fst (get ext send endpoint ep_params st)) = self st
   \<and> self (fst (post ext send endpoint ep_params data st)) = self st
   \<and> self (fst (put ext send endpoint ep_params data st)) = self st
   \<and> self (fst (delete ext send endpoint ep_params st)) = self st"
proof -
  have "self (fst (do' ext send m endpoint ep_params d st)) = self st" for m d
    by (cases rule: do_cases [of ext send m endpoint ep_params d st]) simp_all
  then show ?thesis by (simp add: get_def post_def put_def delete_def)
qed

text \<open>
  C3: when the transport raises a \<open>RequestException\<close>, the call makes one logger call
  at error level whose message is the exception's text, after the pre-flight line and
  the one hand-over to the transport; there is no post-flight line, the transport is not
  called again, and the same exception reaches the caller.
\<close>

theorem do_transport_error:
  assumes "send (sessions st (session (self st))) (request_of st http_method endpoint ep_params data)
           = (sess', Raised (RequestException desc))"
  shows "do' ext send http_method endpoint ep_params data st
           = (st\<lparr>sessions := (sessions st)(session (self st) := sess'),
                 trace := trace st @
                   [Log DEBUG (log_line_pre (self st) http_method endpoint ep_params),
                    Send (request_of st http_method endpoint ep_params data),
                    Log ERROR desc]\<rparr>,
              Inl (RequestException desc))"
  using do_raised_request [of send st http_method endpoint ep_params data sess' desc ext] assms
  by (simp add: sent_def logger_log_def)

theorem do_transport_error_witness:
  "refused_transport (sessions example_state (session (self example_state)))
       (request_of example_state ''GET'' ''items'' None None)
     = (\<lparr>headers = [], cookies = []\<rparr>, Raised (RequestException ''Connection refused''))
   \<and> snd (do' no_ext refused_transport ''GET'' ''items'' None None example_state)
     = Inl (RequestException ''Connection refused'')
   \<and> trace (fst (do' no_ext refused_transport ''GET'' ''items'' None None example_state))
     = [Log 10 ''method=GET, url=https://host/v1/items, params=[]'',
        Send \<lparr>req_method = ''GET'', req_url = ''https://host/v1/items'', req_headers = [],
              req_params = None, req_json = None\<rparr>,
        Log 40 ''Connection refused'']"
proof -
  have h: "refused_transport (sessions example_state (session (self example_state)))
       (request_of example_state ''GET'' ''items'' None None)
     = (\<lparr>headers = [], cookies = []\<rparr>, Raised (RequestException ''Connection refused''))"
    by (simp add: refused_transport_def example_state_def)
  have p: "log_line_pre (self example_state) ''GET'' ''items'' None
             = ''method=GET, url=https://host/v1/items, params=[]''"
    by (simp add: log_line_pre_def full_url_def log_params_def str_list_def example_state_def)
  have q: "request_of example_state ''GET'' ''items'' None None
             = \<lparr>req_method = ''GET'', req_url = ''https://host/v1/items'', req_headers = [],
              req_params = None, req_json = None\<rparr>"
    by (simp add: request_of_def example_state_def)
  have t: "trace example_state = []" by (simp add: example_state_def)
  show ?thesis
    using h do_transport_error [of refused_transport example_state "''GET''" "''items''" None None
        "\<lparr>headers = [], cookies = []\<rparr>" "''Connection refused''" no_ext]
    by (simp add: p q t DEBUG_def ERROR_def)
qed

section \<open>The post-flight line\<close>

text \<open>
  Text without braces passes through \<open>str.format\<close> unchanged, and the three fields of
  the template are replaced by the keyword arguments.
\<close>

lemma format_go_literal:
  "CHR ''{'' \<notin> set p \<Longrightarrow> CHR ''}'' \<notin> set p \<Longrightarrow>
   format_go ext kw (p @ t) = map_sum id ((@) p) (format_go ext kw t)"
proof (induction p)
  case Nil
  show ?case by (cases "format_go ext kw t") simp_all
next
  case (Cons c p)
  have c: "c \<noteq> CHR ''{''" "c \<noteq> CHR ''}''" using Cons.prems by auto
  have p: "CHR ''{'' \<notin> set p" "CHR ''}'' \<notin> set p" using Cons.prems by auto
  have "format_go ext kw ((c # p) @ t) = map_sum id ((#) c) (format_go ext kw (p @ t))"
    by (simp add: c)
  also have "\<dots> = map_sum id ((#) c) (map_sum id ((@) p) (format_go ext kw t))"
    by (simp only: Cons.IH [OF p])
  finally show ?case by (cases "format_go ext kw t") simp_all
qed

lemma format_go_fields:
  "format_go ext [(''success'', a), (''status_code'', b), (''message'', c)]
     '', success={success}, status_code={status_code}, message={message}''
   = Inr ('', success='' @ a @ '', status_code='' @ b @ '', message='' @ c)"
  by (simp add: parse_field_def render_field_def is_digit_def)

lemma format_post:
  assumes "CHR ''{'' \<notin> set (log_line_pre a m ep ps)" "CHR ''}'' \<notin> set (log_line_pre a m ep ps)"
  shows "format ext (log_line_post a m ep ps) [(''success'', x), (''status_code'', y), (''message'', z)]
           = Inr (log_line_pre a m ep ps @ '', success='' @ x @ '', status_code='' @ y @ '', message='' @ z)"
proof -
  have post: "log_line_post a m ep ps
          = log_line_pre a m ep ps @ '', success={success}, status_code={status_code}, message={message}''"
    by (simp add: log_line_post_def)
  have "format_go ext [(''success'', x), (''status_code'', y), (''message'', z)]
          (log_line_pre a m ep ps @ '', success={success}, status_code={status_code}, message={message}'')
        = map_sum id ((@) (log_line_pre a m ep ps))
            (format_go ext [(''success'', x), (''status_code'', y), (''message'', z)]
               '', success={success}, status_code={status_code}, message={message}'')"
    by (rule format_go_literal [OF assms])
  also have "\<dots> = Inr (log_line_pre a m ep ps @ '', success='' @ x @ '', status_code='' @ y @ '', message='' @ z)"
    by (simp only: format_go_fields map_sum.simps)
  finally show ?thesis
    by (simp only: format_def post)
qed

text \<open>
  When the pre-flight line holds no brace, a call that receives a response logs the
  pre-flight line extended with the three fields, at debug level for a status in
  200..299 and at error level otherwise, and returns the response.
\<close>

lemma do_brace_free:
  assumes "send (sessions st (session (self st))) (request_of st http_method endpoint ep_params data)
             = (sess', Returned r)"
    and "CHR ''{'' \<notin> set (log_line_pre (self st) http_method endpoint ep_params)"
    and "CHR ''}'' \<notin> set (log_line_pre (self st) http_method endpoint ep_params)"
  shows "do' ext send http_method endpoint ep_params data st
           = (st\<lparr>sessions := (sessions st)(session (self st) := sess'),
                 trace := trace st @
                   [Log DEBUG (log_line_pre (self st) http_method endpoint ep_params),
                    Send (request_of st http_method endpoint ep_params data),
                    Log (if 200 \<le> status_code r \<and> status_code r \<le> 299 then DEBUG else ERROR)
                      (log_line_pre (self st) http_method endpoint ep_params
                         @ '', success='' @ str_bool (200 \<le> status_code r \<and> status_code r \<le> 299)
                         @ '', status_code='' @ str_int (status_code r)
                         @ '', message='' @ reason r)]\<rparr>,
              Inr r)"
  by (simp only: do_returned [of send st http_method endpoint ep_params data sess' r ext, OF assms(1)]
        format_post [OF assms(2,3)] sum.case)
     (simp add: sent_def logger_log_def)

text \<open>
  C1: for a response the transport returned, whatever the HTTP method, the call treats
  the outcome as a success exactly when 200 \<open>\<le>\<close> status code \<open>\<le>\<close> 299: that truth value
  is what the post-flight line is formatted with as \<open>success\<close>, and it selects debug
  level for the line; any other status selects error level.
\<close>

theorem do_classifies_by_status:
  assumes "send (sessions st (session (self st))) (request_of st http_method endpoint ep_params data)
             = (sess', Returned r)"
    and "snd (do' ext send http_method endpoint ep_params data st) = Inr r'"
  shows "\<exists>line.
           format ext (log_line_post (self st) http_method endpoint ep_params)
             [(''success'', str_bool (200 \<le> status_code r \<and> status_code r \<le> 299)),
              (''status_code'', str_int (status_code r)),
              (''message'', reason r)] = Inr line
         \<and> trace (fst (do' ext send http_method endpoint ep_params data st))
           = trace st @
               [Log DEBUG (log_line_pre (self st) http_method endpoint ep_params),
                Send (request_of st http_method endpoint ep_params data),
                Log (if 200 \<le> status_code r \<and> status_code r \<le> 299 then DEBUG else ERROR) line]"
  using assms(2)
  unfolding do_returned [of send st http_method endpoint ep_params data sess' r ext, OF assms(1)]
  by (auto split: sum.splits)

theorem do_classifies_by_status_witness:
  "snd (do' no_ext (answer 299 ''OK'') ''POST'' ''items'' None None example_state)
     = Inr \<lparr>status_code = 299, reason = ''OK'', content = []\<rparr>
   \<and> (\<exists>line. trace (fst (do' no_ext (answer 299 ''OK'') ''POST'' ''items'' None None example_state))
         = [Log DEBUG ''method=POST, url=https://host/v1/items, params=[]'',
            Send (request_of example_state ''POST'' ''items'' None None),
            Log DEBUG line])
   \<and> snd (do' no_ext (answer 300 ''Multiple Choices'') ''POST'' ''items'' None None example_state)
     = Inr \<lparr>status_code = 300, reason = ''Multiple Choices'', content = []\<rparr>
   \<and> (\<exists>line. trace (fst (do' no_ext (answer 300 ''Multiple Choices'') ''POST'' ''items'' None None example_state))
         = [Log DEBUG ''method=POST, url=https://host/v1/items, params=[]'',
            Send (request_of example_state ''POST'' ''items'' None None),
            Log ERROR line])"
proof -
  let ?s = "\<lparr>headers = [], cookies = []\<rparr>"
  have a1: "answer 299 ''OK'' (sessions example_state (session (self example_state)))
              (request_of example_state ''POST'' ''items'' None None)
            = (?s, Returned \<lparr>status_code = 299, reason = ''OK'', content = []\<rparr>)"
    by (simp add: answer_def example_state_def)
  have a2: "answer 300 ''Multiple Choices'' (sessions example_state (session (self example_state)))
              (request_of example_state ''POST'' ''items'' None None)
            = (?s, Returned \<lparr>status_code = 300, reason = ''Multiple Choices'', content = []\<rparr>)"
    by (simp add: answer_def example_state_def)
  have r1: "snd (do' no_ext (answer 299 ''OK'') ''POST'' ''items'' None None example_state)
     = Inr \<lparr>status_code = 299, reason = ''OK'', content = []\<rparr>"
    by code_simp
  have r2: "snd (do' no_ext (answer 300 ''Multiple Choices'') ''POST'' ''items'' None None example_state)
     = Inr \<lparr>status_code = 300, reason = ''Multiple Choices'', content = []\<rparr>"
    by code_simp
  have p: "log_line_pre (self example_state) ''POST'' ''items'' None
             = ''method=POST, url=https://host/v1/items, params=[]''"
    by (simp add: log_line_pre_def full_url_def log_params_def str_list_def example_state_def)
  have t: "trace example_state = []" by (simp add: example_state_def)
  show ?thesis
    using do_classifies_by_status [of "answer 299 ''OK''" example_state "''POST''" "''items''" None None
        ?s "\<lparr>status_code = 299, reason = ''OK'', content = []\<rparr>" no_ext, OF a1 r1]
      do_classifies_by_status [of "answer 300 ''Multiple Choices''" example_state "''POST''" "''items''"
        None None ?s "\<lparr>status_code = 300, reason = ''Multiple Choices'', content = []\<rparr>" no_ext, OF a2 r2]
    by (simp add: r1 r2 p t) blast
qed


lemma log_line_pre_example:
  "log_line_pre (self example_state) ''GET'' ''items'' (Some [(''page'', ''2''), (''q'', ''a b'')])
     = ''method=GET, url=https://host/v1/items, params=['' @ [squote] @ ''page: 2'' @ [squote]
         @ '', '' @ [squote] @ ''q: a b'' @ [squote] @ '']''"
  by code_simp

section \<open>Braces in the pre-flight line\<close>

text \<open>
  The post-flight template contains the pre-flight line, so \<open>str.format\<close> reads the
  braces of the URL and of the parameters as replacement fields.

  C2: a call whose transport returns a response is to return that response.  For the
  endpoint \<open>items/{id}\<close> and a transport answering 200 OK, \<open>get\<close> raises
  \<open>KeyError('id')\<close> instead.
\<close>

theorem do_raises_on_braces:
  "snd (get ext (answer 200 ''OK'') ''items/{id}'' None example_state) = Inl (KeyError ''id'')"
  by code_simp

text \<open>
  C4: a call is to log one pre-flight line before the request and one post-flight or
  error line after it.  For the parameter \<open>filter\<close> with value \<open>{}\<close> and a transport
  answering 200 OK, the pre-flight line and the request are all there is: the call
  raises \<open>IndexError\<close> while formatting the post-flight line.
\<close>

theorem do_no_postflight_on_braces:
  "trace (fst (get ext (answer 200 ''OK'') ''items'' (Some [(''filter'', ''{}'')]) example_state))
     = [Log DEBUG (''method=GET, url=https://host/v1/items, params=['' @ [squote] @ ''filter: {}''
                     @ [squote] @ '']''),
        Send \<lparr>req_method = ''GET'', req_url = ''https://host/v1/items'', req_headers = [],
              req_params = Some [(''filter'', ''{}'')], req_json = None\<rparr>]
   \<and> snd (get ext (answer 200 ''OK'') ''items'' (Some [(''filter'', ''{}'')]) example_state)
     = Inl (IndexError ''Replacement index 0 out of range for positional args tuple'')"
  by code_simp

text \<open>
  C5: the post-flight line is to be the pre-flight line extended with the three fields.
  For the endpoint \<open>items/{{id}}\<close> and a transport answering 200 OK, the post-flight
  line shows the URL with single braces: it does not begin with the pre-flight line.
\<close>

theorem do_postflight_unescapes_braces:
  "trace (fst (get ext (answer 200 ''OK'') ''items/{{id}}'' None example_state))
     = [Log DEBUG ''method=GET, url=https://host/v1/items/{{id}}, params=[]'',
        Send \<lparr>req_method = ''GET'', req_url = ''https://host/v1/items/{{id}}'', req_headers = [],
              req_params = None, req_json = None\<rparr>,
        Log DEBUG ''method=GET, url=https://host/v1/items/{id}, params=[], success=True, status_code=200, message=OK'']"
  by code_simp

end
